theory Spec2Isabelle
  imports Main "HOL-Library.Word"
begin

section \<open>The request/response adapter of services/geminiService.ts\<close>

text \<open>
  The module shapes requests for a hosted generative-AI service and unpacks its
  responses. Its five exported operations are embedded below as HOL functions. What the
  module takes from its surroundings (the vendor SDK, the host page's key picker,
  \<^verbatim>\<open>JSON.parse\<close>) enters each function as an argument; what it does to its surroundings
  (key-picker calls, network requests, console output) is appended to an event log that
  is threaded through the call. \<^verbatim>\<open>getAI\<close> only builds the SDK client from the API key
  of the environment: the client's entry points are those arguments.
\<close>

subsection \<open>JavaScript strings\<close>

text \<open>
  A JavaScript string is a sequence of UTF-16 code units. \<open>lit\<close> turns an ASCII literal
  of the source into such a sequence.
\<close>

type_synonym jsstring = "16 word list"

definition lit :: "string \<Rightarrow> jsstring" where
  "lit s = map of_char s"

text \<open>
  \<^verbatim>\<open>String.prototype.trim\<close> removes the code units of the ECMAScript productions
  WhiteSpace and LineTerminator from both ends: TAB, LF, VT, FF, CR, SPACE, NBSP,
  U+1680, U+2000 to U+200A, U+2028, U+2029, U+202F, U+205F, U+3000 and U+FEFF.
\<close>

definition isWhiteSpace :: "16 word \<Rightarrow> bool" where
  "isWhiteSpace c =
     (c = 0x0009 \<or> c = 0x000A \<or> c = 0x000B \<or> c = 0x000C \<or> c = 0x000D \<or> c = 0x0020
      \<or> c = 0x00A0 \<or> c = 0x1680 \<or> (0x2000 \<le> c \<and> c \<le> 0x200A) \<or> c = 0x2028
      \<or> c = 0x2029 \<or> c = 0x202F \<or> c = 0x205F \<or> c = 0x3000 \<or> c = 0xFEFF)"

definition trim :: "jsstring \<Rightarrow> jsstring" where
  "trim s = rev (dropWhile isWhiteSpace (rev (dropWhile isWhiteSpace s)))"

text \<open>\<^verbatim>\<open>s.startsWith(p)\<close>.\<close>

definition startsWith :: "jsstring \<Rightarrow> jsstring \<Rightarrow> bool" where
  "startsWith s p = (take (length p) s = p)"

text \<open>
  \<^verbatim>\<open>s.split(sep)\<close> for a separator of one code unit: the pieces between the separators,
  at least one piece, the empty string giving one empty piece.
\<close>

fun split :: "jsstring \<Rightarrow> 16 word \<Rightarrow> jsstring list" where
  "split [] sep = [[]]"
| "split (c # cs) sep =
     (if c = sep then [] # split cs sep
      else (case split cs sep of
              [] \<Rightarrow> [[c]]
            | piece # pieces \<Rightarrow> (c # piece) # pieces))"

text \<open>\<^verbatim>\<open>xs[i]\<close>: reading an array past its end gives \<^verbatim>\<open>undefined\<close>, here \<open>None\<close>.\<close>

definition at :: "'a list \<Rightarrow> nat \<Rightarrow> 'a option" where
  "at xs i = (if i < length xs then Some (xs ! i) else None)"

text \<open>
  Truthiness of an optional string: \<^verbatim>\<open>undefined\<close> and the empty string are falsy, every
  other string is truthy.
\<close>

fun truthy :: "jsstring option \<Rightarrow> bool" where
  "truthy None = False"
| "truthy (Some s) = (s \<noteq> [])"

text \<open>
  A number inside a template literal is printed by the language's Number::toString.
  That function is not the module's: where the module prints a number, the embedding
  takes the function as the argument \<open>numberToString\<close>, over a type \<open>'n\<close> that stands
  for the numbers of JavaScript.
\<close>

subsection \<open>Data model\<close>

text \<open>
  \<^verbatim>\<open>Attachment\<close> is declared in \<^verbatim>\<open>../types\<close>; the module reads its fields
  \<^verbatim>\<open>name\<close>, \<^verbatim>\<open>mimeType\<close> and \<^verbatim>\<open>data\<close>, all strings.
\<close>

record attachment =
  name :: jsstring
  mimeType :: jsstring
  data :: jsstring

text \<open>
  The SDK's content parts. Every field of a part and of the blob under
  \<^verbatim>\<open>inlineData\<close> is optional; the module reads and writes \<^verbatim>\<open>inlineData\<close> and
  \<^verbatim>\<open>text\<close> only.
\<close>

record blob =
  blob_mimeType :: "jsstring option"
  blob_data :: "jsstring option"

record part =
  inlineData :: "blob option"
  part_text :: "jsstring option"

text \<open>
  A conversation turn as the caller hands it in may carry fields beyond \<^verbatim>\<open>role\<close> and
  \<^verbatim>\<open>parts\<close> (the extension slot of the record scheme); the parts are of any type.
\<close>

record 'p turn =
  role :: jsstring
  parts :: "'p list"

record grounding =
  search :: bool

datatype tool = GoogleSearch

record chat_config =
  tools :: "tool list option"

record 'p chat_params =
  model :: jsstring
  history :: "'p turn list"
  config :: chat_config

text \<open>The \<^verbatim>\<open>message\<close> of a send request: a bare string or an array of parts.\<close>

datatype message = MessageText jsstring | MessageParts "part list"

record send_params =
  message :: message

text \<open>The two SDK entry points that \<^verbatim>\<open>streamChat\<close> calls.\<close>

record ('p, 'c, 's) chat_sdk =
  chats_create :: "'p chat_params \<Rightarrow> 'c"
  sendMessageStream :: "'c \<Rightarrow> send_params \<Rightarrow> 's"

subsection \<open>streamChat\<close>

text \<open>The loop over the attachments, pushing one part per attachment.\<close>

fun pushAttachments :: "part list \<Rightarrow> attachment list \<Rightarrow> part list" where
  "pushAttachments currentParts [] = currentParts"
| \<open>pushAttachments currentParts (att # atts) =
     (if mimeType att = lit ''application/pdf'' then
        pushAttachments
          (currentParts @
             [\<lparr>inlineData =
                 Some \<lparr>blob_mimeType = Some (lit ''application/pdf''),
                       blob_data = Some (data att)\<rparr>,
               part_text = None\<rparr>])
          atts
      else if startsWith (mimeType att) (lit ''image/'') then
        pushAttachments
          (currentParts @
             [\<lparr>inlineData =
                 Some \<lparr>blob_mimeType = Some (mimeType att), blob_data = Some (data att)\<rparr>,
               part_text = None\<rparr>])
          atts
      else
        pushAttachments
          (currentParts @
             [\<lparr>inlineData = None,
               part_text =
                 Some (lit ''\<newline>[Context from file "'' @ name att @ lit ''":]\<newline>''
                       @ data att @ lit ''\<newline>'')\<rparr>])
          atts)\<close>

text \<open>The parts of the current turn: the attachments, then the prompt when it is not blank.\<close>

definition currentParts :: "attachment list \<Rightarrow> jsstring \<Rightarrow> part list" where
  "currentParts attachments msg =
     (let ps = pushAttachments [] attachments
      in if truthy (Some (trim msg))
         then ps @ [\<lparr>inlineData = None, part_text = Some msg\<rparr>]
         else ps)"

text \<open>\<^verbatim>\<open>grounding.search\<close> decides whether the search tool is pushed.\<close>

definition groundingTools :: "grounding \<Rightarrow> tool list" where
  "groundingTools g = (if search g then [] @ [GoogleSearch] else [])"

definition historyParts :: "('p, 'x) turn_scheme list \<Rightarrow> 'p turn list" where
  "historyParts hist = map (\<lambda>h. \<lparr>role = role h, parts = parts h\<rparr>) hist"

text \<open>
  The message argument: the bare text when the turn is one part with a truthy text, the
  part array otherwise. The first part is read only when the array has length one.
\<close>

definition messageArg :: "part list \<Rightarrow> message" where
  "messageArg ps =
     (if length ps = 1 \<and> truthy (part_text (ps ! 0))
      then MessageText (the (part_text (ps ! 0)))
      else MessageParts ps)"

definition streamChat ::
  "('p, 'c, 's) chat_sdk \<Rightarrow> jsstring \<Rightarrow> ('p, 'x) turn_scheme list \<Rightarrow> jsstring \<Rightarrow>
   attachment list \<Rightarrow> grounding \<Rightarrow> 's" where
  "streamChat sdk modelId hist msg attachments g =
     (let tls = groundingTools g;
          ps = currentParts attachments msg;
          chat = chats_create sdk
                   \<lparr>model = modelId,
                    history = historyParts hist,
                    config = \<lparr>tools = (if length tls > 0 then Some tls else None)\<rparr>\<rparr>
      in sendMessageStream sdk chat \<lparr>message = messageArg ps\<rparr>)"

text \<open>
  An SDK double that hands back the arguments of both calls, so that the outgoing
  requests of \<open>streamChat\<close> can be read off its result.
\<close>

definition recorder :: "('p, 'p chat_params, 'p chat_params \<times> send_params) chat_sdk" where
  "recorder = \<lparr>chats_create = (\<lambda>p. p), sendMessageStream = (\<lambda>c m. (c, m))\<rparr>"

subsection \<open>Requests, responses and effects of the content-generation calls\<close>

text \<open>
  \<^verbatim>\<open>ModelId\<close> is an enumeration declared in \<^verbatim>\<open>../types\<close>; these are the members the
  module names. \<^verbatim>\<open>ImageGenSize\<close> is declared there too and is only passed on: it is
  the type parameter \<open>'z\<close>.
\<close>

datatype ModelId = GEMINI_3_PRO_IMAGE | GEMINI_2_5_FLASH_IMAGE | GEMINI_3_FLASH | GEMINI_3_PRO

record 'z image_config =
  imageSize :: 'z
  aspectRatio :: jsstring

text \<open>
  Response schemas: a string (with optional description and optional enumeration), an
  array of items, an object with its properties and the names of the required ones.
\<close>

datatype schema =
    STRING "jsstring option" "jsstring list option"
  | ARRAY schema
  | OBJECT "(jsstring \<times> schema) list" "jsstring list"

record 'z generate_config =
  gc_tools :: "tool list option"
  imageConfig :: "'z image_config option"
  responseMimeType :: "jsstring option"
  responseSchema :: "schema option"
  systemInstruction :: "jsstring option"

text \<open>The \<^verbatim>\<open>contents\<close> of a request: a prompt string or an object holding parts.\<close>

datatype contents = ContentText jsstring | ContentParts "part list"

record 'z request =
  req_model :: ModelId
  req_contents :: contents
  req_config :: "'z generate_config option"

text \<open>
  A response: the optional candidate list, each candidate with optional content, the
  content with optional parts; \<^verbatim>\<open>response.text\<close> is the SDK's accessor, an optional
  string. Whatever else the response object holds (grounding metadata, usage) lives in
  the extension slot of the record scheme.
\<close>

record content =
  content_parts :: "part list option"

record candidate =
  cand_content :: "content option"

record response =
  candidates :: "candidate list option"
  response_text :: "jsstring option"

text \<open>
  Errors: \<open>Error m\<close> is \<^verbatim>\<open>new Error(m)\<close> thrown by the module itself; \<open>Thrown x\<close> is
  an exception \<open>x\<close> raised by the SDK or by \<^verbatim>\<open>JSON.parse\<close> that reaches the caller.
\<close>

datatype 'x error = Error jsstring | Thrown 'x

text \<open>What a call does to its surroundings, in the order it does it.\<close>

datatype ('z, 'x) event =
    HasSelectedApiKey
  | OpenSelectKey
  | GenerateContent "'z request"
  | JSONParse jsstring
  | ConsoleError jsstring 'x

record ('h, 'z, 'x) world =
  host :: 'h
  events :: "('z, 'x) event list"

definition emit :: "('z, 'x) event \<Rightarrow> ('h, 'z, 'x) world \<Rightarrow> ('h, 'z, 'x) world" where
  "emit e w = w\<lparr>events := events w @ [e]\<rparr>"

text \<open>
  The host's key picker, \<^verbatim>\<open>window.aistudio\<close>: the object and each of its two methods
  may be missing. \<open>'h\<close> is the state of the host; asking whether a key is selected reads
  it, the dialog may change it.
\<close>

record 'h aistudio =
  hasSelectedApiKey :: "('h \<Rightarrow> bool) option"
  openSelectKey :: "('h \<Rightarrow> 'h) option"

record 'h window =
  aistudio :: "'h aistudio option"

subsection \<open>ensureApiKey\<close>

definition ensureApiKey ::
  "'h window \<Rightarrow> ('h, 'z, 'x) world \<Rightarrow> ('x error + unit) \<times> ('h, 'z, 'x) world" where
  "ensureApiKey win w =
     (case aistudio win of
        None \<Rightarrow> (Inr (), w)
      | Some studio \<Rightarrow>
          (case hasSelectedApiKey studio of
             None \<Rightarrow> (Inr (), w)
           | Some hasSelected \<Rightarrow>
               (case openSelectKey studio of
                  None \<Rightarrow> (Inr (), w)
                | Some openSelect \<Rightarrow>
                    (let w1 = emit HasSelectedApiKey w;
                         hasKey = hasSelected (host w1)
                     in if \<not> hasKey then
                          (let w2 = emit OpenSelectKey (w1\<lparr>host := openSelect (host w1)\<rparr>);
                               w3 = emit HasSelectedApiKey w2;
                               hasKeyNow = hasSelected (host w3)
                           in if \<not> hasKeyNow then
                                (Inl (Error (lit ''API Key selection is required for this feature.'')),
                                 w3)
                              else (Inr (), w3))
                        else (Inr (), w1)))))"

subsection \<open>Extracting the images of a response\<close>

text \<open>
  \<^verbatim>\<open>generateImage\<close> and \<^verbatim>\<open>editImage\<close> end with the same statements; they are
  embedded once. First the optional chain
  \<^verbatim>\<open>response.candidates?.[0]?.content?.parts\<close>.
\<close>

definition firstCandidateParts :: "'m response_scheme \<Rightarrow> part list option" where
  "firstCandidateParts r =
     (case candidates r of
        None \<Rightarrow> None
      | Some cs \<Rightarrow>
          (case at cs 0 of
             None \<Rightarrow> None
           | Some c \<Rightarrow>
               (case cand_content c of
                  None \<Rightarrow> None
                | Some ct \<Rightarrow> content_parts ct)))"

text \<open>
  The loop over the parts. The guard \<^verbatim>\<open>part.inlineData && part.inlineData.data\<close>
  holds when the blob is there and its data is a truthy string; the entry pushed is the
  prefix followed by \<^verbatim>\<open>part.inlineData.data\<close>, read only under the guard.
\<close>

fun pushImages :: "jsstring list \<Rightarrow> part list \<Rightarrow> jsstring list" where
  "pushImages images [] = images"
| "pushImages images (p # ps) =
     (if (case inlineData p of None \<Rightarrow> False | Some b \<Rightarrow> truthy (blob_data b)) then
        pushImages
          (images @ [lit ''data:image/png;base64,'' @ the (blob_data (the (inlineData p)))])
          ps
      else pushImages images ps)"

definition collectImages :: "'m response_scheme \<Rightarrow> jsstring list" where
  "collectImages r =
     (case firstCandidateParts r of
        Some ps \<Rightarrow> pushImages [] ps
      | None \<Rightarrow> [])"

subsection \<open>generateImage\<close>

text \<open>The parameter \<^verbatim>\<open>size\<close> of the source is \<open>sz\<close> here.\<close>

definition generateImageRequest :: "jsstring \<Rightarrow> 'z \<Rightarrow> 'z request" where
  "generateImageRequest prompt sz =
     \<lparr>req_model = GEMINI_3_PRO_IMAGE,
      req_contents = ContentParts [\<lparr>inlineData = None, part_text = Some prompt\<rparr>],
      req_config =
        Some \<lparr>gc_tools = None,
              imageConfig = Some \<lparr>imageSize = sz, aspectRatio = lit ''1:1''\<rparr>,
              responseMimeType = None,
              responseSchema = None,
              systemInstruction = None\<rparr>\<rparr>"

definition generateImage ::
  "'h window \<Rightarrow> ('z request \<Rightarrow> 'x + 'm response_scheme) \<Rightarrow> jsstring \<Rightarrow> 'z \<Rightarrow>
   ('h, 'z, 'x) world \<Rightarrow> ('x error + jsstring list) \<times> ('h, 'z, 'x) world" where
  "generateImage win generateContent prompt sz w =
     (case ensureApiKey win w of
        (Inl e, w1) \<Rightarrow> (Inl e, w1)
      | (Inr u, w1) \<Rightarrow>
          (let req = generateImageRequest prompt sz;
               w2 = emit (GenerateContent req) w1
           in case generateContent req of
                Inl x \<Rightarrow> (Inl (Thrown x), w2)
              | Inr response \<Rightarrow> (Inr (collectImages response), w2)))"

subsection \<open>editImage\<close>

definition editImageRequest :: "jsstring \<Rightarrow> jsstring \<Rightarrow> 'z request" where
  "editImageRequest base64Image prompt =
     \<lparr>req_model = GEMINI_2_5_FLASH_IMAGE,
      req_contents =
        ContentParts
          [\<lparr>inlineData =
              Some \<lparr>blob_mimeType = Some (lit ''image/jpeg''),
                    blob_data = at (split base64Image 0x2C) 1\<rparr>,
            part_text = None\<rparr>,
           \<lparr>inlineData = None, part_text = Some prompt\<rparr>],
      req_config = None\<rparr>"

definition editImage ::
  "('z request \<Rightarrow> 'x + 'm response_scheme) \<Rightarrow> jsstring \<Rightarrow> jsstring \<Rightarrow>
   ('h, 'z, 'x) world \<Rightarrow> ('x error + jsstring list) \<times> ('h, 'z, 'x) world" where
  "editImage generateContent base64Image prompt w =
     (let req = editImageRequest base64Image prompt;
          w1 = emit (GenerateContent req) w
      in case generateContent req of
           Inl x \<Rightarrow> (Inl (Thrown x), w1)
         | Inr response \<Rightarrow> (Inr (collectImages response), w1))"

subsection \<open>generateSlideContent\<close>

definition slideSchema :: schema where
  "slideSchema =
     OBJECT
       [(lit ''slides'',
         ARRAY
           (OBJECT
              [(lit ''title'', STRING (Some (lit ''Full sentence action title'')) None),
               (lit ''content'', ARRAY (STRING None None)),
               (lit ''speakerNotes'', STRING None None)]
              [lit ''title'', lit ''content''])),
        (lit ''sentiment'',
         STRING None
           (Some [lit ''positive'', lit ''neutral'', lit ''negative'', lit ''urgent''])),
        (lit ''themeColor'', STRING (Some (lit ''Hex color code for the theme'')) None)]
       [lit ''slides'', lit ''sentiment'', lit ''themeColor'']"

definition slidePrompt :: "('n \<Rightarrow> jsstring) \<Rightarrow> jsstring \<Rightarrow> 'n \<Rightarrow> jsstring" where
  \<open>slidePrompt numberToString topic count =
          lit ''Create a McKinsey-style management consulting presentation outline about: ''
          @ topic
          @ lit ''.\<newline>''
          @ lit ''    I need exactly ''
          @ numberToString count
          @ lit '' slides.\<newline>''
          @ lit ''    \<newline>''
          @ lit ''    Style Guidelines:\<newline>''
          @ lit ''    1. Titles must be "Action Titles" (complete sentences that summarize the slide's main insight).\<newline>''
          @ lit ''    2. Content should be MECE (Mutually Exclusive, Collectively Exhaustive).\<newline>''
          @ lit ''    3. Determine the 'sentiment' of the topic (positive, neutral, negative, urgent).\<newline>''
          @ lit ''    4. Suggest a professional 'themeColor' hex code based on the sentiment (e.g., Navy for neutral, Red for urgent, Green for growth).\<newline>''
          @ lit ''    \<newline>''
          @ lit ''    Output JSON.''\<close>

definition slideRequest :: "('n \<Rightarrow> jsstring) \<Rightarrow> jsstring \<Rightarrow> 'n \<Rightarrow> 'z request" where
  "slideRequest numberToString topic count =
     \<lparr>req_model = GEMINI_3_FLASH,
      req_contents = ContentText (slidePrompt numberToString topic count),
      req_config =
        Some \<lparr>gc_tools = None,
              imageConfig = None,
              responseMimeType = Some (lit ''application/json''),
              responseSchema = Some slideSchema,
              systemInstruction = None\<rparr>\<rparr>"

text \<open>
  \<^verbatim>\<open>JSON.parse\<close> is the argument \<open>parse\<close>: \<open>Inr v\<close> is the parsed value, \<open>Inl x\<close> the
  exception it throws. The \<^verbatim>\<open>try\<close> block catches every such exception, writes it to
  the console and throws an error of the module's own.
\<close>

definition generateSlideContent ::
  "('n \<Rightarrow> jsstring) \<Rightarrow> ('z request \<Rightarrow> 'x + 'm response_scheme) \<Rightarrow> (jsstring \<Rightarrow> 'x + 'j) \<Rightarrow>
   jsstring \<Rightarrow> 'n \<Rightarrow> ('h, 'z, 'x) world \<Rightarrow> ('x error + 'j option) \<times> ('h, 'z, 'x) world" where
  "generateSlideContent numberToString generateContent parse topic count w =
     (let req = slideRequest numberToString topic count;
          w1 = emit (GenerateContent req) w
      in case generateContent req of
           Inl x \<Rightarrow> (Inl (Thrown x), w1)
         | Inr response \<Rightarrow>
             (if truthy (response_text response) then
                (let w2 = emit (JSONParse (the (response_text response))) w1
                 in case parse (the (response_text response)) of
                      Inr v \<Rightarrow> (Inr (Some v), w2)
                    | Inl e \<Rightarrow>
                        (Inl (Error (lit ''Failed to generate valid slide structure.'')),
                         emit (ConsoleError (lit ''Failed to parse JSON'') e) w2))
              else (Inr None, w1)))"

subsection \<open>analyzeStock\<close>

definition stockPrompt :: "jsstring \<Rightarrow> jsstring" where
  \<open>stockPrompt ticker =
          lit ''Perform a deep-dive investment analysis on ''
          @ ticker
          @ lit ''.\<newline>''
          @ lit ''    \<newline>''
          @ lit ''    Persona: You are a Senior Equity Research Analyst at a top-tier Wall Street hedge fund. \<newline>''
          @ lit ''    Tone: Professional, Objective, Data-Driven, Critical.\<newline>''
          @ lit ''    \<newline>''
          @ lit ''    Requirements:\<newline>''
          @ lit ''    1. Use Google Search to fetch real-time price, recent news, and financial data.\<newline>''
          @ lit ''    2. Analyze Valuation (P/E, Market Cap, EV/EBITDA vs Peers).\<newline>''
          @ lit ''    3. Evaluate the Competitive Moat & Growth Drivers.\<newline>''
          @ lit ''    4. Assess Risks (Macro, Regulatory, Execution).\<newline>''
          @ lit ''    5. Provide a Technical Analysis overview (Trends, Support/Resistance).\<newline>''
          @ lit ''    6. Conclude with an Institutional Verdict: BUY, SELL, or HOLD, with a clear thesis.\<newline>''
          @ lit ''    \<newline>''
          @ lit ''    Format using Markdown with clear headers.''\<close>

definition stockRequest :: "jsstring \<Rightarrow> 'z request" where
  "stockRequest ticker =
     \<lparr>req_model = GEMINI_3_PRO,
      req_contents = ContentText (stockPrompt ticker),
      req_config =
        Some \<lparr>gc_tools = Some [GoogleSearch],
              imageConfig = None,
              responseMimeType = None,
              responseSchema = None,
              systemInstruction =
                Some (lit ''You are a world-class financial analyst. Your analysis must be rigorous, citing numbers and specific events. Do not give generic advice.'')\<rparr>\<rparr>"

definition analyzeStock ::
  "('z request \<Rightarrow> 'x + 'm response_scheme) \<Rightarrow> jsstring \<Rightarrow> ('h, 'z, 'x) world \<Rightarrow>
   ('x error + 'm response_scheme) \<times> ('h, 'z, 'x) world" where
  "analyzeStock generateContent ticker w =
     (let req = stockRequest ticker;
          w1 = emit (GenerateContent req) w
      in case generateContent req of
           Inl x \<Rightarrow> (Inl (Thrown x), w1)
         | Inr response \<Rightarrow> (Inr response, w1))"

text \<open>
  Modelled from the spec: the declarations of \<^verbatim>\<open>SlideContent\<close> and
  \<^verbatim>\<open>PresentationStructure\<close> in \<^verbatim>\<open>../types\<close>, which are not among the sources. The
  data model gives a presentation as an ordered sequence of slides (a title, an ordered
  sequence of content strings, optional speaker notes), a sentiment and a theme colour.
\<close>

record SlideContent =
  title :: jsstring
  content :: "jsstring list"
  speakerNotes :: "jsstring option"

record PresentationStructure =
  slides :: "SlideContent list"
  sentiment :: jsstring
  themeColor :: jsstring

section \<open>Properties\<close>

subsection \<open>Auxiliary facts about the string and loop functions\<close>

lemma dropWhile_all_iff: "(\<forall>x \<in> set (dropWhile P xs). P x) \<longleftrightarrow> (\<forall>x \<in> set xs. P x)"
proof (cases "dropWhile P xs")
  case Nil
  then have all: "\<forall>x \<in> set xs. P x" by simp
  then have "\<forall>x \<in> set (dropWhile P xs). P x" by (blast dest: set_dropWhileD)
  with all show ?thesis by blast
next
  case (Cons y ys)
  then have "\<not> P y" using hd_dropWhile [of P xs] by simp
  moreover have "y \<in> set (dropWhile P xs)" using Cons by simp
  moreover have "y \<in> set xs" using Cons set_dropWhileD [of y P xs] by simp
  ultimately show ?thesis by blast
qed

lemma trim_blank_iff: "trim s = [] \<longleftrightarrow> (\<forall>c \<in> set s. isWhiteSpace c)"
  by (simp add: trim_def dropWhile_all_iff)

lemma pushAttachments_acc:
  \<open>pushAttachments acc atts =
     acc @ map (\<lambda>att.
        if mimeType att = lit ''application/pdf'' \<or> startsWith (mimeType att) (lit ''image/'')
        then \<lparr>inlineData = Some \<lparr>blob_mimeType = Some (mimeType att), blob_data = Some (data att)\<rparr>,
              part_text = None\<rparr>
        else \<lparr>inlineData = None,
              part_text = Some (lit ''\<newline>[Context from file "'' @ name att @ lit ''":]\<newline>''
                                @ data att @ lit ''\<newline>'')\<rparr>) atts\<close>
  by (induction atts arbitrary: acc) auto

lemma streamChat_recorder:
  "streamChat recorder modelId hist msg atts g =
     (\<lparr>model = modelId, history = historyParts hist,
        config = \<lparr>tools = (if length (groundingTools g) > 0 then Some (groundingTools g) else None)\<rparr>\<rparr>,
      \<lparr>message = messageArg (currentParts atts msg)\<rparr>)"
  by (simp add: streamChat_def recorder_def Let_def)

lemma truthy_data:
  "truthy d = (case d of None \<Rightarrow> False | Some s \<Rightarrow> s \<noteq> [])"
  by (cases d) simp_all

lemma pushImages_acc:
  "pushImages acc ps =
     acc @ map (\<lambda>p. lit ''data:image/png;base64,'' @ the (blob_data (the (inlineData p))))
               (filter (\<lambda>p. case inlineData p of
                                None \<Rightarrow> False
                              | Some b \<Rightarrow> (case blob_data b of None \<Rightarrow> False | Some d \<Rightarrow> d \<noteq> []))
                       ps)"
  by (induction ps arbitrary: acc) (auto simp: truthy_data split: option.splits)

lemma split_no_sep: "sep \<notin> set s \<Longrightarrow> split s sep = [s]"
  by (induction s) auto

lemma split_first_sep: "sep \<notin> set hdr \<Longrightarrow> split (hdr @ sep # rest) sep = hdr # split rest sep"
  by (induction hdr) auto

lemma currentParts_map:
  \<open>currentParts attachments msg =
     map (\<lambda>att.
        if mimeType att = lit ''application/pdf'' \<or> startsWith (mimeType att) (lit ''image/'')
        then \<lparr>inlineData = Some \<lparr>blob_mimeType = Some (mimeType att), blob_data = Some (data att)\<rparr>,
              part_text = None\<rparr>
        else \<lparr>inlineData = None,
              part_text = Some (lit ''\<newline>[Context from file "'' @ name att @ lit ''":]\<newline>''
                                @ data att @ lit ''\<newline>'')\<rparr>) attachments
     @ (if trim msg \<noteq> [] then [\<lparr>inlineData = None, part_text = Some msg\<rparr>] else [])\<close>
  by (simp add: currentParts_def Let_def pushAttachments_acc)

lemma historyParts_length: "length (historyParts hist) = length hist"
  by (simp add: historyParts_def)

lemma historyParts_nth:
  "i < length hist \<Longrightarrow> historyParts hist ! i = \<lparr>role = role (hist ! i), parts = parts (hist ! i)\<rparr>"
  by (simp add: historyParts_def)

lemma streamChat_tools:
  "tools (config (fst (streamChat recorder modelId hist msg atts g)))
     = (if search g then Some [GoogleSearch] else None)"
  by (simp add: streamChat_recorder groundingTools_def)

lemma analyzeStock_result:
  "analyzeStock svc ticker w =
     (case svc (stockRequest ticker) of Inl x \<Rightarrow> Inl (Thrown x) | Inr r \<Rightarrow> Inr r,
      emit (GenerateContent (stockRequest ticker)) w)"
  by (simp add: analyzeStock_def Let_def split: sum.splits)

lemma messageArg_single_text:
  "part_text p = Some t \<Longrightarrow> t \<noteq> [] \<Longrightarrow> messageArg [p] = MessageText t"
  by (simp add: messageArg_def)

lemma messageArg_single_falsy: "\<not> truthy (part_text p) \<Longrightarrow> messageArg [p] = MessageParts [p]"
  by (simp add: messageArg_def)

lemma messageArg_not_single: "length ps \<noteq> 1 \<Longrightarrow> messageArg ps = MessageParts ps"
  by (simp add: messageArg_def)

lemma trim_Nil: "trim [] = []"
  by (simp add: trim_def)

lemma currentParts_shape:
  "p \<in> set (currentParts atts msg) \<Longrightarrow>
     (inlineData p \<noteq> None \<and> part_text p = None)
     \<or> (inlineData p = None \<and> (\<exists>t. part_text p = Some t \<and> t \<noteq> []))"
  by (auto simp: currentParts_map lit_def trim_Nil
           split: if_splits)

lemma collectImages_parts:
  "firstCandidateParts r = Some ps \<Longrightarrow>
     collectImages r =
       map (\<lambda>p. lit ''data:image/png;base64,'' @ the (blob_data (the (inlineData p))))
           (filter (\<lambda>p. case inlineData p of
                            None \<Rightarrow> False
                          | Some b \<Rightarrow> (case blob_data b of None \<Rightarrow> False | Some d \<Rightarrow> d \<noteq> []))
                   ps)"
  by (simp add: collectImages_def pushImages_acc)

lemma no_inline_data:
  "(\<forall>p \<in> set ps. \<forall>b d. inlineData p = Some b \<and> blob_data b = Some d \<longrightarrow> d = []) \<Longrightarrow>
     filter (\<lambda>p. case inlineData p of
                    None \<Rightarrow> False
                  | Some b \<Rightarrow> (case blob_data b of None \<Rightarrow> False | Some d \<Rightarrow> d \<noteq> []))
            ps = []"
  by (induction ps) (auto split: option.splits)

lemma collectImages_no_parts: "firstCandidateParts r = None \<Longrightarrow> collectImages r = []"
  by (simp add: collectImages_def)

lemma firstCandidateParts_no_candidates:
  "candidates r = None \<or> candidates r = Some [] \<Longrightarrow> firstCandidateParts r = None"
  by (auto simp: firstCandidateParts_def at_def)

lemma firstCandidateParts_first:
  "candidates r = Some (c # cs) \<Longrightarrow>
     firstCandidateParts r =
       (case cand_content c of None \<Rightarrow> None | Some ct \<Rightarrow> content_parts ct)"
  by (simp add: firstCandidateParts_def at_def)

lemma generateImage_passed:
  "fst (ensureApiKey win w) = Inr () \<Longrightarrow>
     generateImage win svc prompt sz w =
       (case svc (generateImageRequest prompt sz) of
          Inl x \<Rightarrow> Inl (Thrown x)
        | Inr r \<Rightarrow> Inr (collectImages r),
        emit (GenerateContent (generateImageRequest prompt sz)) (snd (ensureApiKey win w)))"
  by (cases "ensureApiKey win w") (simp add: generateImage_def Let_def split: sum.splits)

lemma generateImage_refused:
  "fst (ensureApiKey win w) = Inl e \<Longrightarrow>
     generateImage win svc prompt sz w = (Inl e, snd (ensureApiKey win w))"
  by (cases "ensureApiKey win w") (simp add: generateImage_def)

lemma editImage_result:
  "editImage svc img prompt w =
     (case svc (editImageRequest img prompt) of
        Inl x \<Rightarrow> Inl (Thrown x)
      | Inr r \<Rightarrow> Inr (collectImages r),
      emit (GenerateContent (editImageRequest img prompt)) w)"
  by (simp add: editImage_def Let_def split: sum.splits)

lemma ensureApiKey_absent:
  "aistudio win = None
   \<or> (\<exists>s. aistudio win = Some s \<and> (hasSelectedApiKey s = None \<or> openSelectKey s = None))
   \<Longrightarrow> ensureApiKey win w = (Inr (), w)"
  by (auto simp: ensureApiKey_def split: option.splits)

lemma ensureApiKey_declined:
  "aistudio win = Some s \<Longrightarrow> hasSelectedApiKey s = Some has \<Longrightarrow> openSelectKey s = Some opn \<Longrightarrow>
   \<not> has (host w) \<Longrightarrow> \<not> has (opn (host w)) \<Longrightarrow>
     ensureApiKey win w =
       (Inl (Error (lit ''API Key selection is required for this feature.'')),
        w\<lparr>host := opn (host w),
          events := events w @ [HasSelectedApiKey, OpenSelectKey, HasSelectedApiKey]\<rparr>)"
  by (simp add: ensureApiKey_def Let_def emit_def)

lemma ensureApiKey_selected:
  "aistudio win = Some s \<Longrightarrow> hasSelectedApiKey s = Some has \<Longrightarrow> openSelectKey s = Some opn \<Longrightarrow>
   has (host w) \<Longrightarrow>
     ensureApiKey win w = (Inr (), w\<lparr>events := events w @ [HasSelectedApiKey]\<rparr>)"
  by (simp add: ensureApiKey_def Let_def emit_def)

lemma ensureApiKey_accepted:
  "aistudio win = Some s \<Longrightarrow> hasSelectedApiKey s = Some has \<Longrightarrow> openSelectKey s = Some opn \<Longrightarrow>
   \<not> has (host w) \<Longrightarrow> has (opn (host w)) \<Longrightarrow>
     ensureApiKey win w =
       (Inr (),
        w\<lparr>host := opn (host w),
          events := events w @ [HasSelectedApiKey, OpenSelectKey, HasSelectedApiKey]\<rparr>)"
  by (simp add: ensureApiKey_def Let_def emit_def)

lemma generateSlideContent_result:
  "generateSlideContent numberToString svc parse topic count w =
     (case svc (slideRequest numberToString topic count) of
        Inl x \<Rightarrow> (Inl (Thrown x), emit (GenerateContent (slideRequest numberToString topic count)) w)
      | Inr r \<Rightarrow>
          (case response_text r of
             None \<Rightarrow> (Inr None, emit (GenerateContent (slideRequest numberToString topic count)) w)
           | Some t \<Rightarrow>
               if t = [] then (Inr None, emit (GenerateContent (slideRequest numberToString topic count)) w)
               else (case parse t of
                       Inr v \<Rightarrow>
                         (Inr (Some v),
                          emit (JSONParse t) (emit (GenerateContent (slideRequest numberToString topic count)) w))
                     | Inl x \<Rightarrow>
                         (Inl (Error (lit ''Failed to generate valid slide structure.'')),
                          emit (ConsoleError (lit ''Failed to parse JSON'') x)
                            (emit (JSONParse t)
                               (emit (GenerateContent (slideRequest numberToString topic count)) w))))))"
  by (simp add: generateSlideContent_def Let_def split: sum.splits option.splits)

text \<open>
  What \<open>editImage\<close> reads from its input: without a comma there is no second piece, and
  the data of the blob is left undefined; with a comma it is the piece that follows the
  first one, which stops in front of the next comma.
\<close>

lemma split_without_comma: "sep \<notin> set s \<Longrightarrow> at (split s sep) 1 = None"
  by (simp add: split_no_sep at_def)

lemma split_takeWhile:
  "sep \<notin> set hdr \<Longrightarrow>
     at (split (hdr @ sep # rest) sep) 1 = Some (takeWhile (\<lambda>c. c \<noteq> sep) rest)"
proof -
  assume "sep \<notin> set hdr"
  then have "split (hdr @ sep # rest) sep = hdr # split rest sep"
    by (rule split_first_sep)
  moreover have "\<exists>pieces. split rest sep = takeWhile (\<lambda>c. c \<noteq> sep) rest # pieces"
    by (induction rest) auto
  ultimately show ?thesis
    by (auto simp: at_def)
qed

subsection \<open>streamChat: the parts of the current turn\<close>

text \<open>
  Claim C1. For every attachment list and message, the part sequence that
  \<open>streamChat\<close> builds for the current turn holds one part per attachment, in attachment
  order: an inline-binary part with the attachment's MIME type and data when the MIME
  type is exactly \<^verbatim>\<open>application/pdf\<close> or starts with \<^verbatim>\<open>image/\<close>, and otherwise one
  labelled text part embedding the attachment's name and data. One text part holding the
  message follows exactly when the message is not empty after trimming white space. This
  sequence is what goes into the message of the send request.
\<close>

theorem streamChat_current_turn_parts:
  \<open>currentParts attachments msg =
     map (\<lambda>att.
        if mimeType att = lit ''application/pdf'' \<or> startsWith (mimeType att) (lit ''image/'')
        then \<lparr>inlineData = Some \<lparr>blob_mimeType = Some (mimeType att), blob_data = Some (data att)\<rparr>,
              part_text = None\<rparr>
        else \<lparr>inlineData = None,
              part_text = Some (lit ''\<newline>[Context from file "'' @ name att @ lit ''":]\<newline>''
                                @ data att @ lit ''\<newline>'')\<rparr>) attachments
     @ (if trim msg \<noteq> [] then [\<lparr>inlineData = None, part_text = Some msg\<rparr>] else [])
   \<and> snd (streamChat recorder modelId hist msg attachments g)
       = \<lparr>message = messageArg (currentParts attachments msg)\<rparr>\<close>
  using currentParts_map [of attachments msg] by (simp add: streamChat_recorder)

theorem streamChat_current_turn_parts_witness:
  \<open>currentParts
     [\<lparr>name = lit ''a.pdf'', mimeType = lit ''application/pdf'', data = lit ''JVBE''\<rparr>,
      \<lparr>name = lit ''n.txt'', mimeType = lit ''text/plain'', data = lit ''hi''\<rparr>,
      \<lparr>name = lit ''p.png'', mimeType = lit ''image/png'', data = lit ''iVBO''\<rparr>]
     (lit '' go '')
   = [\<lparr>inlineData = Some \<lparr>blob_mimeType = Some (lit ''application/pdf''),
                            blob_data = Some (lit ''JVBE'')\<rparr>,
       part_text = None\<rparr>,
      \<lparr>inlineData = None,
       part_text = Some (lit ''\<newline>[Context from file "n.txt":]\<newline>hi\<newline>'')\<rparr>,
      \<lparr>inlineData = Some \<lparr>blob_mimeType = Some (lit ''image/png''),
                            blob_data = Some (lit ''iVBO'')\<rparr>,
       part_text = None\<rparr>,
      \<lparr>inlineData = None, part_text = Some (lit '' go '')\<rparr>]
   \<and> currentParts [] [0x3000, 0x0020] = []\<close>
  using streamChat_current_turn_parts
          [where attachments =
             "[\<lparr>name = lit ''a.pdf'', mimeType = lit ''application/pdf'', data = lit ''JVBE''\<rparr>,
               \<lparr>name = lit ''n.txt'', mimeType = lit ''text/plain'', data = lit ''hi''\<rparr>,
               \<lparr>name = lit ''p.png'', mimeType = lit ''image/png'', data = lit ''iVBO''\<rparr>]"
           and msg = "lit '' go ''", THEN conjunct1]
        streamChat_current_turn_parts
          [where attachments = "[]" and msg = "[0x3000, 0x0020]", THEN conjunct1]
  by (simp add: lit_def startsWith_def trim_def isWhiteSpace_def)

subsection \<open>streamChat: the history handed to the chat\<close>

text \<open>
  Claim C5. For every history array passed to \<open>streamChat\<close>, the history given to the
  chat creation has the length and the order of the input, and each of its elements is
  the corresponding input element projected onto its \<^verbatim>\<open>role\<close> and \<^verbatim>\<open>parts\<close> fields:
  nothing is dropped, reordered or changed otherwise.
\<close>

theorem streamChat_history_projection:
  "history (fst (streamChat recorder modelId hist msg atts g))
     = map (\<lambda>h. \<lparr>role = role h, parts = parts h\<rparr>) hist
   \<and> length (history (fst (streamChat recorder modelId hist msg atts g))) = length hist
   \<and> (\<forall>i < length hist.
         history (fst (streamChat recorder modelId hist msg atts g)) ! i
           = \<lparr>role = role (hist ! i), parts = parts (hist ! i)\<rparr>)"
  by (simp add: streamChat_recorder historyParts_length historyParts_nth)
     (simp add: historyParts_def)

theorem streamChat_history_projection_witness:
  "history (fst (streamChat recorder (lit ''m'')
       [\<lparr>role = lit ''user'', parts = [1 :: nat], \<dots> = True\<rparr>,
        \<lparr>role = lit ''model'', parts = [2, 3], \<dots> = False\<rparr>]
       (lit ''hi'') [] \<lparr>search = False\<rparr>))
   = [\<lparr>role = lit ''user'', parts = [1]\<rparr>, \<lparr>role = lit ''model'', parts = [2, 3]\<rparr>]"
  using streamChat_history_projection
          [where modelId = "lit ''m''"
           and hist = "[\<lparr>role = lit ''user'', parts = [1 :: nat], \<dots> = True\<rparr>,
                        \<lparr>role = lit ''model'', parts = [2, 3], \<dots> = False\<rparr>]"
           and msg = "lit ''hi''" and atts = "[]" and g = "\<lparr>search = False\<rparr>"]
  by simp

subsection \<open>The web-search tool\<close>

text \<open>
  Claim C7. \<open>streamChat\<close> puts the web-search tool into the configuration of the chat
  exactly when \<^verbatim>\<open>grounding.search\<close> is true; when it is false the \<^verbatim>\<open>tools\<close> field is
  left unset. \<open>analyzeStock\<close> issues one request, whose configuration always holds the
  web-search tool, and returns the response object of the service as it is.
\<close>

theorem search_tool_configuration:
  "(search g \<longrightarrow>
      tools (config (fst (streamChat recorder modelId hist msg atts g))) = Some [GoogleSearch])
   \<and> (\<not> search g \<longrightarrow>
      tools (config (fst (streamChat recorder modelId hist msg atts g))) = None)
   \<and> events (snd (analyzeStock (svc :: 'z request \<Rightarrow> 'x + 'm response_scheme) ticker w))
       = events w @ [GenerateContent (stockRequest ticker)]
   \<and> map_option gc_tools (req_config (stockRequest ticker :: 'z request)) = Some (Some [GoogleSearch])
   \<and> (\<forall>r. svc (stockRequest ticker) = Inr r \<longrightarrow> fst (analyzeStock svc ticker w) = Inr r)"
  by (simp add: streamChat_tools analyzeStock_result emit_def)
     (simp add: stockRequest_def)

theorem search_tool_configuration_witness:
  "tools (config (fst (streamChat recorder (lit ''m'') ([] :: nat turn list) (lit ''hi'') []
                         \<lparr>search = True\<rparr>))) = Some [GoogleSearch]
   \<and> tools (config (fst (streamChat recorder (lit ''m'') ([] :: nat turn list) (lit ''hi'') []
                         \<lparr>search = False\<rparr>))) = None
   \<and> fst (analyzeStock
            (\<lambda>req :: unit request.
               Inr \<lparr>candidates = None, response_text = Some (lit ''BUY''), \<dots> = True\<rparr>
                 :: unit + bool response_scheme)
            (lit ''ACME'') (\<lparr>host = (), events = []\<rparr> :: (unit, unit, unit) world))
       = Inr \<lparr>candidates = None, response_text = Some (lit ''BUY''), \<dots> = True\<rparr>"
proof -
  have t: "search \<lparr>search = True\<rparr>" and f: "\<not> search \<lparr>search = False\<rparr>"
    by simp_all
  note inst = search_tool_configuration
               [where modelId = "lit ''m''" and hist = "[] :: nat turn list"
                and msg = "lit ''hi''" and atts = "[]" and ticker = "lit ''ACME''"
                and w = "\<lparr>host = (), events = []\<rparr> :: (unit, unit, unit) world"
                and svc = "\<lambda>req :: unit request.
                     Inr \<lparr>candidates = None, response_text = Some (lit ''BUY''), \<dots> = True\<rparr>
                       :: unit + bool response_scheme"]
  have "tools (config (fst (streamChat recorder (lit ''m'') ([] :: nat turn list) (lit ''hi'') []
                               \<lparr>search = True\<rparr>))) = Some [GoogleSearch]"
    using inst [where g = "\<lparr>search = True\<rparr>", THEN conjunct1] t by simp
  moreover
  have "tools (config (fst (streamChat recorder (lit ''m'') ([] :: nat turn list) (lit ''hi'') []
                               \<lparr>search = False\<rparr>))) = None"
    using inst [where g = "\<lparr>search = False\<rparr>", THEN conjunct2, THEN conjunct1] f by simp
  moreover
  have "fst (analyzeStock
            (\<lambda>req :: unit request.
               Inr \<lparr>candidates = None, response_text = Some (lit ''BUY''), \<dots> = True\<rparr>
                 :: unit + bool response_scheme)
            (lit ''ACME'') (\<lparr>host = (), events = []\<rparr> :: (unit, unit, unit) world))
       = Inr \<lparr>candidates = None, response_text = Some (lit ''BUY''), \<dots> = True\<rparr>"
    using inst [where g = "\<lparr>search = True\<rparr>",
                THEN conjunct2, THEN conjunct2, THEN conjunct2, THEN conjunct2]
    by simp
  ultimately show ?thesis by blast
qed

subsection \<open>streamChat: bare text or part array\<close>

text \<open>
  Claim C9. When the part list of the current turn has exactly one element and that
  element has a non-empty text, \<open>streamChat\<close> sends the bare text as the message. In
  every other case it sends the part array itself; the other cases are no part at all,
  more than one part, and a single inline-binary part (the last conjunct: a part list
  built by \<open>streamChat\<close> is always in one of these four cases).
\<close>

theorem streamChat_message_argument:
  "(\<forall>p t. currentParts atts msg = [p] \<and> part_text p = Some t \<and> t \<noteq> [] \<longrightarrow>
      message (snd (streamChat recorder modelId hist msg atts g)) = MessageText t)
   \<and> (currentParts atts msg = [] \<longrightarrow>
      message (snd (streamChat recorder modelId hist msg atts g)) = MessageParts [])
   \<and> (1 < length (currentParts atts msg) \<longrightarrow>
      message (snd (streamChat recorder modelId hist msg atts g))
        = MessageParts (currentParts atts msg))
   \<and> (\<forall>p. currentParts atts msg = [p] \<and> part_text p = None \<longrightarrow>
      message (snd (streamChat recorder modelId hist msg atts g)) = MessageParts [p])
   \<and> (currentParts atts msg = []
      \<or> 1 < length (currentParts atts msg)
      \<or> (\<exists>p. currentParts atts msg = [p] \<and> inlineData p \<noteq> None \<and> part_text p = None)
      \<or> (\<exists>p t. currentParts atts msg = [p] \<and> part_text p = Some t \<and> t \<noteq> []))"
proof -
  let ?ps = "currentParts atts msg"
  let ?m = "message (snd (streamChat recorder modelId hist msg atts g))"
  have m: "?m = messageArg ?ps"
    by (simp add: streamChat_recorder)
  have bare: "\<forall>p t. ?ps = [p] \<and> part_text p = Some t \<and> t \<noteq> [] \<longrightarrow> ?m = MessageText t"
    by (simp add: m messageArg_single_text)
  have none: "?ps = [] \<longrightarrow> ?m = MessageParts []"
    by (simp add: m messageArg_not_single)
  have many: "1 < length ?ps \<longrightarrow> ?m = MessageParts ?ps"
    by (simp add: m messageArg_not_single)
  have binary: "\<forall>p. ?ps = [p] \<and> part_text p = None \<longrightarrow> ?m = MessageParts [p]"
    by (simp add: m messageArg_single_falsy)
  have cases: "?ps = [] \<or> 1 < length ?ps
      \<or> (\<exists>p. ?ps = [p] \<and> inlineData p \<noteq> None \<and> part_text p = None)
      \<or> (\<exists>p t. ?ps = [p] \<and> part_text p = Some t \<and> t \<noteq> [])"
  proof (cases ?ps)
    case Nil
    then show ?thesis by simp
  next
    case (Cons p qs)
    show ?thesis
    proof (cases qs)
      case Nil
      with Cons have single: "?ps = [p]" by simp
      then have "p \<in> set ?ps" by simp
      from currentParts_shape [OF this] single show ?thesis by auto
    next
      case (Cons q rs)
      with \<open>?ps = p # qs\<close> show ?thesis by simp
    qed
  qed
  from bare none many binary cases show ?thesis by blast
qed

theorem streamChat_message_argument_witness:
  "message (snd (streamChat recorder (lit ''m'') ([] :: nat turn list) (lit ''hi'') []
                   \<lparr>search = False\<rparr>)) = MessageText (lit ''hi'')
   \<and> message (snd (streamChat recorder (lit ''m'') ([] :: nat turn list) [] []
                   \<lparr>search = False\<rparr>)) = MessageParts []
   \<and> message (snd (streamChat recorder (lit ''m'') ([] :: nat turn list) (lit '' '')
                   [\<lparr>name = lit ''p.png'', mimeType = lit ''image/png'', data = lit ''iVBO''\<rparr>]
                   \<lparr>search = False\<rparr>))
       = MessageParts [\<lparr>inlineData = Some \<lparr>blob_mimeType = Some (lit ''image/png''),
                                             blob_data = Some (lit ''iVBO'')\<rparr>,
                        part_text = None\<rparr>]
   \<and> message (snd (streamChat recorder (lit ''m'') ([] :: nat turn list) (lit ''hi'')
                   [\<lparr>name = lit ''p.png'', mimeType = lit ''image/png'', data = lit ''iVBO''\<rparr>]
                   \<lparr>search = False\<rparr>))
       = MessageParts [\<lparr>inlineData = Some \<lparr>blob_mimeType = Some (lit ''image/png''),
                                             blob_data = Some (lit ''iVBO'')\<rparr>,
                        part_text = None\<rparr>,
                       \<lparr>inlineData = None, part_text = Some (lit ''hi'')\<rparr>]"
proof -
  let ?png = "\<lparr>name = lit ''p.png'', mimeType = lit ''image/png'', data = lit ''iVBO''\<rparr>"
  let ?inl = "\<lparr>inlineData = Some \<lparr>blob_mimeType = Some (lit ''image/png''),
                                   blob_data = Some (lit ''iVBO'')\<rparr>,
               part_text = None\<rparr>"
  have a: "currentParts [] (lit ''hi'') = [\<lparr>inlineData = None, part_text = Some (lit ''hi'')\<rparr>]"
    by (simp add: currentParts_def lit_def trim_def isWhiteSpace_def)
  have b: "currentParts [] [] = []"
    by (simp add: currentParts_def trim_def)
  have c: "currentParts [?png] (lit '' '') = [?inl]"
    by (simp add: currentParts_def lit_def trim_def isWhiteSpace_def startsWith_def)
  have d: "currentParts [?png] (lit ''hi'')
             = [?inl, \<lparr>inlineData = None, part_text = Some (lit ''hi'')\<rparr>]"
    by (simp add: currentParts_def lit_def trim_def isWhiteSpace_def startsWith_def)
  have nonempty: "lit ''hi'' \<noteq> []"
    by (simp add: lit_def)
  note inst = streamChat_message_argument
               [where modelId = "lit ''m''" and hist = "[] :: nat turn list"
                and g = "\<lparr>search = False\<rparr>"]
  have "message (snd (streamChat recorder (lit ''m'') ([] :: nat turn list) (lit ''hi'') []
                        \<lparr>search = False\<rparr>)) = MessageText (lit ''hi'')"
    using inst [where atts = "[]" and msg = "lit ''hi''", THEN conjunct1] a nonempty by simp
  moreover
  have "message (snd (streamChat recorder (lit ''m'') ([] :: nat turn list) [] []
                        \<lparr>search = False\<rparr>)) = MessageParts []"
    using inst [where atts = "[]" and msg = "[]", THEN conjunct2, THEN conjunct1] b by simp
  moreover
  have "message (snd (streamChat recorder (lit ''m'') ([] :: nat turn list) (lit '' '') [?png]
                        \<lparr>search = False\<rparr>)) = MessageParts [?inl]"
    using inst [where atts = "[?png]" and msg = "lit '' ''",
               THEN conjunct2, THEN conjunct2, THEN conjunct2, THEN conjunct1] c
    by simp
  moreover
  have "message (snd (streamChat recorder (lit ''m'') ([] :: nat turn list) (lit ''hi'') [?png]
                        \<lparr>search = False\<rparr>))
          = MessageParts [?inl, \<lparr>inlineData = None, part_text = Some (lit ''hi'')\<rparr>]"
    using inst [where atts = "[?png]" and msg = "lit ''hi''",
               THEN conjunct2, THEN conjunct2, THEN conjunct1] d
    by simp
  ultimately show ?thesis by blast
qed

subsection \<open>generateImage and editImage: the images returned\<close>

text \<open>
  Claim C2. For every response, \<open>generateImage\<close> (once the key gate lets it through) and
  \<open>editImage\<close> return a list with exactly one entry per inline-image fragment among the
  content parts of the first candidate, in order, each entry being
  \<^verbatim>\<open>data:image/png;base64,\<close> followed by the data of that fragment. An inline-image
  fragment is a part whose \<^verbatim>\<open>inlineData\<close> field is there and whose \<^verbatim>\<open>data\<close> field
  under it is a non-empty string; the entry is built from that \<^verbatim>\<open>data\<close> field, and
  whatever else the part holds plays no role. The parts of the first candidate are those
  of its content, when the candidate list has a first element with content and parts.
  When the response has no candidates, no parts or no such fragment, the result is the
  empty list; the result is a list in every case.
\<close>

theorem images_of_first_candidate:
  "(fst (ensureApiKey win w) = Inr () \<and> svc (generateImageRequest prompt sz) = Inr r \<longrightarrow>
      fst (generateImage win svc prompt sz w) = Inr (collectImages r))
   \<and> (svc' (editImageRequest img prompt') = Inr r \<longrightarrow>
      fst (editImage svc' img prompt' w') = Inr (collectImages r))
   \<and> (\<forall>ps. firstCandidateParts r = Some ps \<longrightarrow>
         collectImages r =
           map (\<lambda>p. lit ''data:image/png;base64,'' @ the (blob_data (the (inlineData p))))
               (filter (\<lambda>p. case inlineData p of
                                None \<Rightarrow> False
                              | Some b \<Rightarrow> (case blob_data b of None \<Rightarrow> False | Some d \<Rightarrow> d \<noteq> []))
                       ps)
         \<and> length (collectImages r) =
             length (filter (\<lambda>p. case inlineData p of
                                    None \<Rightarrow> False
                                  | Some b \<Rightarrow>
                                      (case blob_data b of None \<Rightarrow> False | Some d \<Rightarrow> d \<noteq> []))
                            ps))
   \<and> (\<forall>c cs. candidates r = Some (c # cs) \<longrightarrow>
         firstCandidateParts r =
           (case cand_content c of None \<Rightarrow> None | Some ct \<Rightarrow> content_parts ct))
   \<and> (candidates r = None \<or> candidates r = Some [] \<or> firstCandidateParts r = None \<longrightarrow>
         collectImages r = [])
   \<and> (\<forall>ps. firstCandidateParts r = Some ps
            \<and> (\<forall>p \<in> set ps. \<forall>b d. inlineData p = Some b \<and> blob_data b = Some d \<longrightarrow> d = [])
         \<longrightarrow> collectImages r = [])"
proof -
  have gen: "fst (ensureApiKey win w) = Inr () \<and> svc (generateImageRequest prompt sz) = Inr r \<longrightarrow>
      fst (generateImage win svc prompt sz w) = Inr (collectImages r)"
    by (simp add: generateImage_passed)
  have edit: "svc' (editImageRequest img prompt') = Inr r \<longrightarrow>
      fst (editImage svc' img prompt' w') = Inr (collectImages r)"
    by (simp add: editImage_result)
  have entries: "\<forall>ps. firstCandidateParts r = Some ps \<longrightarrow>
         collectImages r =
           map (\<lambda>p. lit ''data:image/png;base64,'' @ the (blob_data (the (inlineData p))))
               (filter (\<lambda>p. case inlineData p of
                                None \<Rightarrow> False
                              | Some b \<Rightarrow> (case blob_data b of None \<Rightarrow> False | Some d \<Rightarrow> d \<noteq> []))
                       ps)
         \<and> length (collectImages r) =
             length (filter (\<lambda>p. case inlineData p of
                                    None \<Rightarrow> False
                                  | Some b \<Rightarrow>
                                      (case blob_data b of None \<Rightarrow> False | Some d \<Rightarrow> d \<noteq> []))
                            ps)"
    by (simp add: collectImages_parts)
  have first: "\<forall>c cs. candidates r = Some (c # cs) \<longrightarrow>
         firstCandidateParts r =
           (case cand_content c of None \<Rightarrow> None | Some ct \<Rightarrow> content_parts ct)"
    by (simp add: firstCandidateParts_first)
  have empty: "candidates r = None \<or> candidates r = Some [] \<or> firstCandidateParts r = None \<longrightarrow>
         collectImages r = []"
    using firstCandidateParts_no_candidates [of r] collectImages_no_parts [of r] by blast
  have nofrag: "\<forall>ps. firstCandidateParts r = Some ps
            \<and> (\<forall>p \<in> set ps. \<forall>b d. inlineData p = Some b \<and> blob_data b = Some d \<longrightarrow> d = [])
         \<longrightarrow> collectImages r = []"
  proof (intro allI impI)
    fix ps
    assume h: "firstCandidateParts r = Some ps
            \<and> (\<forall>p \<in> set ps. \<forall>b d. inlineData p = Some b \<and> blob_data b = Some d \<longrightarrow> d = [])"
    then have "filter (\<lambda>p. case inlineData p of
                    None \<Rightarrow> False
                  | Some b \<Rightarrow> (case blob_data b of None \<Rightarrow> False | Some d \<Rightarrow> d \<noteq> []))
            ps = []"
      by (intro no_inline_data) blast
    with h show "collectImages r = []"
      by (simp add: collectImages_parts)
  qed
  from gen edit entries first empty nofrag show ?thesis by blast
qed

theorem images_of_first_candidate_witness:
  "fst (generateImage \<lparr>aistudio = None\<rparr>
          (\<lambda>req :: unit request.
             Inr \<lparr>candidates =
                    Some [\<lparr>cand_content =
                             Some \<lparr>content_parts =
                                     Some [\<lparr>inlineData = None, part_text = Some (lit ''Here:'')\<rparr>,
                                           \<lparr>inlineData = Some \<lparr>blob_mimeType = Some (lit ''image/png''),
                                                                blob_data = Some (lit ''AAA'')\<rparr>,
                                            part_text = None\<rparr>,
                                           \<lparr>inlineData = Some \<lparr>blob_mimeType = Some (lit ''image/png''),
                                                                blob_data = None\<rparr>,
                                            part_text = None\<rparr>,
                                           \<lparr>inlineData = Some \<lparr>blob_mimeType = None,
                                                                blob_data = Some (lit ''BBB'')\<rparr>,
                                            part_text = Some (lit ''caption'')\<rparr>]\<rparr>\<rparr>,
                          \<lparr>cand_content =
                             Some \<lparr>content_parts =
                                     Some [\<lparr>inlineData = Some \<lparr>blob_mimeType = None,
                                                                blob_data = Some (lit ''ZZZ'')\<rparr>,
                                            part_text = None\<rparr>]\<rparr>\<rparr>],
                  response_text = None\<rparr> :: unit + response)
          (lit ''a cat'') () (\<lparr>host = (), events = []\<rparr> :: (unit, unit, unit) world))
     = Inr [lit ''data:image/png;base64,AAA'', lit ''data:image/png;base64,BBB'']
   \<and> fst (editImage
            (\<lambda>req :: unit request.
               Inr \<lparr>candidates = None, response_text = Some (lit ''no image'')\<rparr> :: unit + response)
            (lit ''data:image/png;base64,AAA'') (lit ''blur'')
            (\<lparr>host = (), events = []\<rparr> :: (unit, unit, unit) world))
     = Inr []
   \<and> fst (editImage
            (\<lambda>req :: unit request.
               Inr \<lparr>candidates =
                      Some [\<lparr>cand_content =
                               Some \<lparr>content_parts =
                                       Some [\<lparr>inlineData = None, part_text = Some (lit ''Sorry.'')\<rparr>,
                                             \<lparr>inlineData = Some \<lparr>blob_mimeType = Some (lit ''image/png''),
                                                                  blob_data = Some []\<rparr>,
                                              part_text = None\<rparr>]\<rparr>\<rparr>],
                    response_text = Some (lit ''Sorry.'')\<rparr> :: unit + response)
            (lit ''data:image/png;base64,AAA'') (lit ''blur'')
            (\<lparr>host = (), events = []\<rparr> :: (unit, unit, unit) world))
     = Inr []"
proof -
  let ?ps = "[\<lparr>inlineData = None, part_text = Some (lit ''Here:'')\<rparr>,
              \<lparr>inlineData = Some \<lparr>blob_mimeType = Some (lit ''image/png''),
                                   blob_data = Some (lit ''AAA'')\<rparr>,
               part_text = None\<rparr>,
              \<lparr>inlineData = Some \<lparr>blob_mimeType = Some (lit ''image/png''),
                                   blob_data = None\<rparr>,
               part_text = None\<rparr>,
              \<lparr>inlineData = Some \<lparr>blob_mimeType = None,
                                   blob_data = Some (lit ''BBB'')\<rparr>,
               part_text = Some (lit ''caption'')\<rparr>]"
  let ?r = "\<lparr>candidates =
               Some [\<lparr>cand_content = Some \<lparr>content_parts = Some ?ps\<rparr>\<rparr>,
                     \<lparr>cand_content =
                        Some \<lparr>content_parts =
                                Some [\<lparr>inlineData = Some \<lparr>blob_mimeType = None,
                                                           blob_data = Some (lit ''ZZZ'')\<rparr>,
                                       part_text = None\<rparr>]\<rparr>\<rparr>],
             response_text = None\<rparr>"
  let ?e = "\<lparr>candidates = None, response_text = Some (lit ''no image'')\<rparr>"
  let ?w = "\<lparr>host = (), events = []\<rparr> :: (unit, unit, unit) world"
  let ?win = "\<lparr>aistudio = None\<rparr> :: unit window"
  have gate: "fst (ensureApiKey ?win ?w) = Inr ()"
    by (simp add: ensureApiKey_def)
  have parts: "firstCandidateParts ?r = Some ?ps"
    by (simp add: firstCandidateParts_def at_def)
  have none: "candidates ?e = None"
    by simp
  note full = images_of_first_candidate
                [where r = ?r and win = ?win and w = ?w and prompt = "lit ''a cat''" and sz = "()"
                 and svc = "\<lambda>req :: unit request. Inr ?r :: unit + response"]
  note empty = images_of_first_candidate
                [where r = ?e and w' = ?w and img = "lit ''data:image/png;base64,AAA''"
                 and prompt' = "lit ''blur''"
                 and svc' = "\<lambda>req :: unit request. Inr ?e :: unit + response"]
  have "collectImages ?r = [lit ''data:image/png;base64,AAA'', lit ''data:image/png;base64,BBB'']"
    using full [THEN conjunct2, THEN conjunct2, THEN conjunct1, rule_format, OF parts]
    by (simp add: lit_def)
  with full [THEN conjunct1] gate
  have a: "fst (generateImage ?win (\<lambda>req :: unit request. Inr ?r :: unit + response)
                  (lit ''a cat'') () ?w)
             = Inr [lit ''data:image/png;base64,AAA'', lit ''data:image/png;base64,BBB'']"
    by simp
  have "collectImages ?e = []"
    using empty [THEN conjunct2, THEN conjunct2, THEN conjunct2, THEN conjunct2, THEN conjunct1]
          none
    by simp
  with empty [THEN conjunct2, THEN conjunct1]
  have b: "fst (editImage (\<lambda>req :: unit request. Inr ?e :: unit + response)
                  (lit ''data:image/png;base64,AAA'') (lit ''blur'') ?w) = Inr []"
    by simp
  let ?qs = "[\<lparr>inlineData = None, part_text = Some (lit ''Sorry.'')\<rparr>,
              \<lparr>inlineData = Some \<lparr>blob_mimeType = Some (lit ''image/png''),
                                   blob_data = Some []\<rparr>,
               part_text = None\<rparr>]"
  let ?s = "\<lparr>candidates = Some [\<lparr>cand_content = Some \<lparr>content_parts = Some ?qs\<rparr>\<rparr>],
             response_text = Some (lit ''Sorry.'')\<rparr>"
  note bare = images_of_first_candidate
                [where r = ?s and w' = ?w and img = "lit ''data:image/png;base64,AAA''"
                 and prompt' = "lit ''blur''"
                 and svc' = "\<lambda>req :: unit request. Inr ?s :: unit + response"]
  have nofrag: "firstCandidateParts ?s = Some ?qs
      \<and> (\<forall>p \<in> set ?qs. \<forall>b d. inlineData p = Some b \<and> blob_data b = Some d \<longrightarrow> d = [])"
    by (simp add: firstCandidateParts_def at_def)
  have "collectImages ?s = []"
    using bare [THEN conjunct2, THEN conjunct2, THEN conjunct2, THEN conjunct2, THEN conjunct2,
                rule_format, OF nofrag] .
  with bare [THEN conjunct2, THEN conjunct1]
  have c: "fst (editImage (\<lambda>req :: unit request. Inr ?s :: unit + response)
                  (lit ''data:image/png;base64,AAA'') (lit ''blur'') ?w) = Inr []"
    by simp
  from a b c show ?thesis by blast
qed

subsection \<open>editImage: the request\<close>

text \<open>
  Claim C6 says that the first part of the request carries the substring following the
  first comma of the input. That fails for an input with a second comma:
  \<^verbatim>\<open>split(',')[1]\<close> is the piece between the first comma and the next one. For
  \<^verbatim>\<open>data:text/plain,a,b\<close> the substring following the first comma is \<^verbatim>\<open>a,b\<close>, and
  the data sent is \<^verbatim>\<open>a\<close>.
\<close>

theorem editImage_second_comma_counterexample:
  "events (snd (editImage
                  (\<lambda>req :: unit request.
                     Inr \<lparr>candidates = None, response_text = None\<rparr> :: unit + response)
                  (lit ''data:text/plain,a,b'') (lit ''add a hat'')
                  (\<lparr>host = (), events = []\<rparr> :: (unit, unit, unit) world)))
   = [GenerateContent
        \<lparr>req_model = GEMINI_2_5_FLASH_IMAGE,
         req_contents =
           ContentParts
             [\<lparr>inlineData = Some \<lparr>blob_mimeType = Some (lit ''image/jpeg''),
                                   blob_data = Some (lit ''a'')\<rparr>,
               part_text = None\<rparr>,
              \<lparr>inlineData = None, part_text = Some (lit ''add a hat'')\<rparr>],
         req_config = None\<rparr>]
   \<and> events (snd (editImage
                  (\<lambda>req :: unit request.
                     Inr \<lparr>candidates = None, response_text = None\<rparr> :: unit + response)
                  (lit ''data:text/plain,a,b'') (lit ''add a hat'')
                  (\<lparr>host = (), events = []\<rparr> :: (unit, unit, unit) world)))
   \<noteq> [GenerateContent
        \<lparr>req_model = GEMINI_2_5_FLASH_IMAGE,
         req_contents =
           ContentParts
             [\<lparr>inlineData = Some \<lparr>blob_mimeType = Some (lit ''image/jpeg''),
                                   blob_data = Some (lit ''a,b'')\<rparr>,
               part_text = None\<rparr>,
              \<lparr>inlineData = None, part_text = Some (lit ''add a hat'')\<rparr>],
         req_config = None\<rparr>]
   \<and> lit ''data:text/plain,a,b'' = lit ''data:text/plain'' @ 0x2C # lit ''a,b''
   \<and> 0x2C \<notin> set (lit ''data:text/plain'')"
  by (simp add: editImage_def editImageRequest_def Let_def emit_def at_def lit_def)

text \<open>
  Claim C6, corrected. For every input that holds a comma, written as a header without
  comma, the comma, and the rest, \<open>editImage\<close> issues one request of two parts: first an
  inline-binary part whose data is the rest up to its next comma, or all of it when it
  holds none, then the text part with the prompt. For a base64 data URI, whose payload
  is drawn from letters, digits, \<^verbatim>\<open>+\<close>, \<^verbatim>\<open>/\<close> and \<^verbatim>\<open>=\<close> and so holds no comma, the
  data is the whole substring following the first comma.
\<close>

theorem editImage_request_first_piece:
  assumes "0x2C \<notin> set hdr"
  shows "events (snd (editImage svc (hdr @ 0x2C # rest) prompt w)) =
           events w @
             [GenerateContent
                \<lparr>req_model = GEMINI_2_5_FLASH_IMAGE,
                 req_contents =
                   ContentParts
                     [\<lparr>inlineData = Some \<lparr>blob_mimeType = Some (lit ''image/jpeg''),
                                           blob_data = Some (takeWhile (\<lambda>c. c \<noteq> 0x2C) rest)\<rparr>,
                       part_text = None\<rparr>,
                      \<lparr>inlineData = None, part_text = Some prompt\<rparr>],
                 req_config = None\<rparr>]
         \<and> (0x2C \<notin> set rest \<longrightarrow> takeWhile (\<lambda>c. c \<noteq> 0x2C) rest = rest)"
proof -
  have "at (split (hdr @ 0x2C # rest) 0x2C) 1 = Some (takeWhile (\<lambda>c. c \<noteq> 0x2C) rest)"
    using assms by (rule split_takeWhile)
  then have sent: "events (snd (editImage svc (hdr @ 0x2C # rest) prompt w)) =
           events w @
             [GenerateContent
                \<lparr>req_model = GEMINI_2_5_FLASH_IMAGE,
                 req_contents =
                   ContentParts
                     [\<lparr>inlineData = Some \<lparr>blob_mimeType = Some (lit ''image/jpeg''),
                                           blob_data = Some (takeWhile (\<lambda>c. c \<noteq> 0x2C) rest)\<rparr>,
                       part_text = None\<rparr>,
                      \<lparr>inlineData = None, part_text = Some prompt\<rparr>],
                 req_config = None\<rparr>]"
    by (simp add: editImage_result emit_def editImageRequest_def)
  have whole: "0x2C \<notin> set rest \<longrightarrow> takeWhile (\<lambda>c. c \<noteq> 0x2C) rest = rest"
    by (simp add: takeWhile_eq_all_conv) blast
  from sent whole show ?thesis by blast
qed

theorem editImage_request_first_piece_witness:
  "events (snd (editImage
                  (\<lambda>req :: unit request.
                     Inr \<lparr>candidates = None, response_text = None\<rparr> :: unit + response)
                  (lit ''data:image/png;base64,iVBORw0KGgo='') (lit ''add a hat'')
                  (\<lparr>host = (), events = []\<rparr> :: (unit, unit, unit) world)))
   = [GenerateContent
        \<lparr>req_model = GEMINI_2_5_FLASH_IMAGE,
         req_contents =
           ContentParts
             [\<lparr>inlineData = Some \<lparr>blob_mimeType = Some (lit ''image/jpeg''),
                                   blob_data = Some (lit ''iVBORw0KGgo='')\<rparr>,
               part_text = None\<rparr>,
              \<lparr>inlineData = None, part_text = Some (lit ''add a hat'')\<rparr>],
         req_config = None\<rparr>]"
proof -
  have hdr: "0x2C \<notin> set (lit ''data:image/png;base64'')"
    by (simp add: lit_def)
  have payload: "0x2C \<notin> set (lit ''iVBORw0KGgo='')"
    by (simp add: lit_def)
  have whole: "lit ''data:image/png;base64'' @ 0x2C # lit ''iVBORw0KGgo=''
                 = lit ''data:image/png;base64,iVBORw0KGgo=''"
    by (simp add: lit_def)
  note inst = editImage_request_first_piece
                [OF hdr,
                 where rest = "lit ''iVBORw0KGgo=''"
                 and svc = "\<lambda>req :: unit request.
                            Inr \<lparr>candidates = None, response_text = None\<rparr> :: unit + response"
                 and prompt = "lit ''add a hat''"
                 and w = "\<lparr>host = (), events = []\<rparr> :: (unit, unit, unit) world"]
  from inst [THEN conjunct2, rule_format, OF payload]
  have "takeWhile (\<lambda>c. c \<noteq> 0x2C) (lit ''iVBORw0KGgo='') = lit ''iVBORw0KGgo=''" .
  with inst [THEN conjunct1] show ?thesis
    by (simp add: whole)
qed

subsection \<open>generateImage: the key gate\<close>

text \<open>
  Claim C4. When the host's key picker is absent (\<^verbatim>\<open>window.aistudio\<close> or one of its
  two methods is missing), \<open>generateImage\<close> goes on without asking for a key: the only
  thing it does is the content-generation request, and the host is left as it was. When
  the picker is there, no key is selected, and none is selected after the dialog either,
  the call fails with the error \<^verbatim>\<open>API Key selection is required for this feature.\<close>,
  and no content-generation request is among the things it did.
\<close>

theorem key_gate_of_generateImage:
  "(aistudio win = None
      \<or> (\<exists>s. aistudio win = Some s \<and> (hasSelectedApiKey s = None \<or> openSelectKey s = None))
    \<longrightarrow> generateImage win svc prompt sz w =
          (case svc (generateImageRequest prompt sz) of
             Inl x \<Rightarrow> Inl (Thrown x)
           | Inr r \<Rightarrow> Inr (collectImages r),
           w\<lparr>events := events w @ [GenerateContent (generateImageRequest prompt sz)]\<rparr>))
   \<and> (\<forall>s has opn.
         aistudio win = Some s \<and> hasSelectedApiKey s = Some has \<and> openSelectKey s = Some opn
         \<and> \<not> has (host w) \<and> \<not> has (opn (host w))
       \<longrightarrow> fst (generateImage win svc prompt sz w)
             = Inl (Error (lit ''API Key selection is required for this feature.''))
           \<and> events (snd (generateImage win svc prompt sz w))
             = events w @ [HasSelectedApiKey, OpenSelectKey, HasSelectedApiKey]
           \<and> (\<forall>req. GenerateContent req
                 \<notin> set (drop (length (events w))
                           (events (snd (generateImage win svc prompt sz w))))))"
proof -
  have absent: "aistudio win = None
      \<or> (\<exists>s. aistudio win = Some s \<and> (hasSelectedApiKey s = None \<or> openSelectKey s = None))
    \<longrightarrow> generateImage win svc prompt sz w =
          (case svc (generateImageRequest prompt sz) of
             Inl x \<Rightarrow> Inl (Thrown x)
           | Inr r \<Rightarrow> Inr (collectImages r),
           w\<lparr>events := events w @ [GenerateContent (generateImageRequest prompt sz)]\<rparr>)"
  proof
    assume a: "aistudio win = None
      \<or> (\<exists>s. aistudio win = Some s \<and> (hasSelectedApiKey s = None \<or> openSelectKey s = None))"
    have pass: "ensureApiKey win w = (Inr (), w)"
      by (rule ensureApiKey_absent [OF a])
    then have "fst (ensureApiKey win w) = Inr ()" by simp
    from generateImage_passed [OF this] pass
    show "generateImage win svc prompt sz w =
          (case svc (generateImageRequest prompt sz) of
             Inl x \<Rightarrow> Inl (Thrown x)
           | Inr r \<Rightarrow> Inr (collectImages r),
           w\<lparr>events := events w @ [GenerateContent (generateImageRequest prompt sz)]\<rparr>)"
      by (simp add: emit_def)
  qed
  have declined: "\<forall>s has opn.
         aistudio win = Some s \<and> hasSelectedApiKey s = Some has \<and> openSelectKey s = Some opn
         \<and> \<not> has (host w) \<and> \<not> has (opn (host w))
       \<longrightarrow> fst (generateImage win svc prompt sz w)
             = Inl (Error (lit ''API Key selection is required for this feature.''))
           \<and> events (snd (generateImage win svc prompt sz w))
             = events w @ [HasSelectedApiKey, OpenSelectKey, HasSelectedApiKey]
           \<and> (\<forall>req. GenerateContent req
                 \<notin> set (drop (length (events w))
                           (events (snd (generateImage win svc prompt sz w)))))"
  proof (intro allI impI)
    fix s has opn
    assume h: "aistudio win = Some s \<and> hasSelectedApiKey s = Some has \<and> openSelectKey s = Some opn
         \<and> \<not> has (host w) \<and> \<not> has (opn (host w))"
    then have refused: "ensureApiKey win w =
       (Inl (Error (lit ''API Key selection is required for this feature.'')),
        w\<lparr>host := opn (host w),
          events := events w @ [HasSelectedApiKey, OpenSelectKey, HasSelectedApiKey]\<rparr>)"
      by (simp add: ensureApiKey_declined)
    then have "fst (ensureApiKey win w)
                 = Inl (Error (lit ''API Key selection is required for this feature.''))"
      by simp
    from generateImage_refused [OF this] refused
    have "generateImage win svc prompt sz w =
       (Inl (Error (lit ''API Key selection is required for this feature.'')),
        w\<lparr>host := opn (host w),
          events := events w @ [HasSelectedApiKey, OpenSelectKey, HasSelectedApiKey]\<rparr>)"
      by simp
    then show "fst (generateImage win svc prompt sz w)
             = Inl (Error (lit ''API Key selection is required for this feature.''))
           \<and> events (snd (generateImage win svc prompt sz w))
             = events w @ [HasSelectedApiKey, OpenSelectKey, HasSelectedApiKey]
           \<and> (\<forall>req. GenerateContent req
                 \<notin> set (drop (length (events w))
                           (events (snd (generateImage win svc prompt sz w)))))"
      by simp
  qed
  from absent declined show ?thesis by blast
qed

theorem key_gate_of_generateImage_witness:
  "generateImage \<lparr>aistudio = None\<rparr>
      (\<lambda>req :: unit request. Inr \<lparr>candidates = None, response_text = None\<rparr> :: unit + response)
      (lit ''a cat'') () (\<lparr>host = False, events = []\<rparr> :: (bool, unit, unit) world)
     = (Inr [], \<lparr>host = False, events = [GenerateContent (generateImageRequest (lit ''a cat'') ())]\<rparr>)
   \<and> generateImage
        \<lparr>aistudio = Some \<lparr>hasSelectedApiKey = Some (\<lambda>h. h), openSelectKey = Some (\<lambda>h. h)\<rparr>\<rparr>
        (\<lambda>req :: unit request. Inr \<lparr>candidates = None, response_text = None\<rparr> :: unit + response)
        (lit ''a cat'') () (\<lparr>host = False, events = []\<rparr> :: (bool, unit, unit) world)
     = (Inl (Error (lit ''API Key selection is required for this feature.'')),
        \<lparr>host = False, events = [HasSelectedApiKey, OpenSelectKey, HasSelectedApiKey]\<rparr>)"
proof -
  let ?svc = "\<lambda>req :: unit request.
                Inr \<lparr>candidates = None, response_text = None\<rparr> :: unit + response"
  let ?w = "\<lparr>host = False, events = []\<rparr> :: (bool, unit, unit) world"
  let ?studio = "\<lparr>hasSelectedApiKey = Some (\<lambda>h :: bool. h), openSelectKey = Some (\<lambda>h :: bool. h)\<rparr>"
  have absent: "aistudio (\<lparr>aistudio = None\<rparr> :: bool window) = None
      \<or> (\<exists>s. aistudio (\<lparr>aistudio = None\<rparr> :: bool window) = Some s
             \<and> (hasSelectedApiKey s = None \<or> openSelectKey s = None))"
    by simp
  have declined: "aistudio \<lparr>aistudio = Some ?studio\<rparr> = Some ?studio
      \<and> hasSelectedApiKey ?studio = Some (\<lambda>h. h) \<and> openSelectKey ?studio = Some (\<lambda>h. h)
      \<and> \<not> (\<lambda>h. h) (host ?w) \<and> \<not> (\<lambda>h. h) ((\<lambda>h. h) (host ?w))"
    by simp
  have a: "generateImage \<lparr>aistudio = None\<rparr> ?svc (lit ''a cat'') () ?w
             = (Inr [], \<lparr>host = False,
                         events = [GenerateContent (generateImageRequest (lit ''a cat'') ())]\<rparr>)"
    using key_gate_of_generateImage
            [where win = "\<lparr>aistudio = None\<rparr>" and svc = ?svc and prompt = "lit ''a cat''"
             and sz = "()" and w = ?w, THEN conjunct1, rule_format, OF absent]
    by (simp add: collectImages_def firstCandidateParts_def)
  have b: "fst (generateImage \<lparr>aistudio = Some ?studio\<rparr> ?svc (lit ''a cat'') () ?w)
             = Inl (Error (lit ''API Key selection is required for this feature.''))
           \<and> events (snd (generateImage \<lparr>aistudio = Some ?studio\<rparr> ?svc (lit ''a cat'') () ?w))
             = events ?w @ [HasSelectedApiKey, OpenSelectKey, HasSelectedApiKey]
           \<and> (\<forall>req. GenerateContent req
                 \<notin> set (drop (length (events ?w))
                      (events (snd (generateImage \<lparr>aistudio = Some ?studio\<rparr> ?svc
                                      (lit ''a cat'') () ?w)))))"
    using key_gate_of_generateImage
            [where win = "\<lparr>aistudio = Some ?studio\<rparr>" and svc = ?svc and prompt = "lit ''a cat''"
             and sz = "()" and w = ?w, THEN conjunct2, rule_format, OF declined]
    by blast
  have host: "host (snd (generateImage \<lparr>aistudio = Some ?studio\<rparr> ?svc (lit ''a cat'') () ?w)) = False"
    by (simp add: generateImage_def ensureApiKey_def emit_def Let_def)
  have c: "generateImage \<lparr>aistudio = Some ?studio\<rparr> ?svc (lit ''a cat'') () ?w
     = (Inl (Error (lit ''API Key selection is required for this feature.'')),
        \<lparr>host = False, events = [HasSelectedApiKey, OpenSelectKey, HasSelectedApiKey]\<rparr>)"
    using b host
    by (cases "generateImage \<lparr>aistudio = Some ?studio\<rparr> ?svc (lit ''a cat'') () ?w") auto
  from a c show ?thesis by blast
qed

subsection \<open>generateSlideContent: the three outcomes\<close>

text \<open>
  Claim C3. For every response of the service, \<open>generateSlideContent\<close> ends in one of
  three ways. If the response carries text (a non-empty string) that parses as JSON, the
  parsed value is returned. If it carries text that does not parse, the exception of the
  parser is written to the console and the error
  \<^verbatim>\<open>Failed to generate valid slide structure.\<close> is thrown in its place. If the response
  has no text at all, the result is \<^verbatim>\<open>null\<close> and nothing is thrown.
\<close>

theorem generateSlideContent_outcomes:
  assumes "svc (slideRequest numberToString topic count) = Inr r"
  shows "(\<forall>t v. response_text r = Some t \<and> t \<noteq> [] \<and> parse t = Inr v \<longrightarrow>
            fst (generateSlideContent numberToString svc parse topic count w) = Inr (Some v))
   \<and> (\<forall>t x. response_text r = Some t \<and> t \<noteq> [] \<and> parse t = Inl x \<longrightarrow>
            fst (generateSlideContent numberToString svc parse topic count w)
              = Inl (Error (lit ''Failed to generate valid slide structure.''))
          \<and> fst (generateSlideContent numberToString svc parse topic count w) \<noteq> Inl (Thrown x)
          \<and> events (snd (generateSlideContent numberToString svc parse topic count w))
              = events w @ [GenerateContent (slideRequest numberToString topic count), JSONParse t,
                            ConsoleError (lit ''Failed to parse JSON'') x])
   \<and> (response_text r = None \<longrightarrow>
            fst (generateSlideContent numberToString svc parse topic count w) = Inr None)
   \<and> ((\<exists>v. fst (generateSlideContent numberToString svc parse topic count w) = Inr (Some v))
        \<or> fst (generateSlideContent numberToString svc parse topic count w)
            = Inl (Error (lit ''Failed to generate valid slide structure.''))
        \<or> fst (generateSlideContent numberToString svc parse topic count w) = Inr None)"
  using assms
  by (auto simp: generateSlideContent_result emit_def split: option.splits sum.splits)

theorem generateSlideContent_outcomes_witness:
  \<open>fst (generateSlideContent (\<lambda>n :: int. lit ''3'')
          (\<lambda>req :: unit request.
             Inr \<lparr>candidates = None, response_text = Some (lit ''{}'')\<rparr> :: unit + response)
          (\<lambda>t. if t = lit ''{}'' then Inr (0 :: nat) else Inl ())
          (lit ''tea'') 3 (\<lparr>host = (), events = []\<rparr> :: (unit, unit, unit) world))
     = Inr (Some 0)
   \<and> fst (generateSlideContent (\<lambda>n :: int. lit ''3'')
          (\<lambda>req :: unit request.
             Inr \<lparr>candidates = None, response_text = Some (lit ''{"slides'')\<rparr> :: unit + response)
          (\<lambda>t. if t = lit ''{}'' then Inr (0 :: nat) else Inl ())
          (lit ''tea'') 3 (\<lparr>host = (), events = []\<rparr> :: (unit, unit, unit) world))
     = Inl (Error (lit ''Failed to generate valid slide structure.''))
   \<and> fst (generateSlideContent (\<lambda>n :: int. lit ''3'')
          (\<lambda>req :: unit request.
             Inr \<lparr>candidates = None, response_text = None\<rparr> :: unit + response)
          (\<lambda>t. if t = lit ''{}'' then Inr (0 :: nat) else Inl ())
          (lit ''tea'') 3 (\<lparr>host = (), events = []\<rparr> :: (unit, unit, unit) world))
     = Inr None\<close>
proof -
  let ?parse = "\<lambda>t. if t = lit ''{}'' then Inr (0 :: nat) else Inl ()"
  let ?w = "\<lparr>host = (), events = []\<rparr> :: (unit, unit, unit) world"
  let ?good = "\<lparr>candidates = None, response_text = Some (lit ''{}'')\<rparr>"
  let ?bad = \<open>\<lparr>candidates = None, response_text = Some (lit ''{"slides'')\<rparr>\<close>
  let ?none = "\<lparr>candidates = None, response_text = None\<rparr>"
  have good: "response_text ?good = Some (lit ''{}'') \<and> lit ''{}'' \<noteq> []
                \<and> ?parse (lit ''{}'') = Inr 0"
    by (simp add: lit_def)
  have bad: \<open>response_text ?bad = Some (lit ''{"slides'') \<and> lit ''{"slides'' \<noteq> []
                \<and> ?parse (lit ''{"slides'') = Inl ()\<close>
    by (simp add: lit_def)
  have none: "response_text ?none = None"
    by simp
  have a: "fst (generateSlideContent (\<lambda>n :: int. lit ''3'')
                  (\<lambda>req :: unit request. Inr ?good :: unit + response)
                  ?parse (lit ''tea'') 3 ?w) = Inr (Some 0)"
    using generateSlideContent_outcomes
            [where svc = "\<lambda>req :: unit request. Inr ?good :: unit + response" and r = ?good
             and parse = ?parse and topic = "lit ''tea''" and count = 3 and numberToString = "\<lambda>n :: int. lit ''3''" and w = ?w,
             OF refl, THEN conjunct1, rule_format, OF good] .
  have b: "fst (generateSlideContent (\<lambda>n :: int. lit ''3'')
                  (\<lambda>req :: unit request. Inr ?bad :: unit + response)
                  ?parse (lit ''tea'') 3 ?w)
             = Inl (Error (lit ''Failed to generate valid slide structure.''))"
    using generateSlideContent_outcomes
            [where svc = "\<lambda>req :: unit request. Inr ?bad :: unit + response" and r = ?bad
             and parse = ?parse and topic = "lit ''tea''" and count = 3 and numberToString = "\<lambda>n :: int. lit ''3''" and w = ?w,
             OF refl, THEN conjunct2, THEN conjunct1, rule_format, OF bad]
    by blast
  have c: "fst (generateSlideContent (\<lambda>n :: int. lit ''3'')
                  (\<lambda>req :: unit request. Inr ?none :: unit + response)
                  ?parse (lit ''tea'') 3 ?w) = Inr None"
    using generateSlideContent_outcomes
            [where svc = "\<lambda>req :: unit request. Inr ?none :: unit + response" and r = ?none
             and parse = ?parse and topic = "lit ''tea''" and count = 3 and numberToString = "\<lambda>n :: int. lit ''3''" and w = ?w,
             OF refl, THEN conjunct2, THEN conjunct2, THEN conjunct1, rule_format, OF none] .
  from a b c show ?thesis by blast
qed

subsection \<open>generateSlideContent: no check of the slide count\<close>

text \<open>
  Claim C8. \<open>generateSlideContent\<close> does not enforce the requested number of slides:
  for every response whose text parses as JSON (such a text is never empty), what is
  returned is the parsed object, unchanged, whatever the \<open>count\<close> argument is, also when
  the length of its \<^verbatim>\<open>slides\<close> array differs from \<open>count\<close>.
\<close>

theorem generateSlideContent_passes_through:
  assumes "svc (slideRequest numberToString topic count) = Inr r"
    and "response_text r = Some t" and "t \<noteq> []"
    and "parse t = Inr (v :: PresentationStructure)"
  shows "fst (generateSlideContent numberToString svc parse topic count w) = Inr (Some v)"
  using assms by (simp add: generateSlideContent_result)

theorem generateSlideContent_passes_through_witness:
  \<open>int (length (slides \<lparr>slides = [\<lparr>title = lit ''Tea sells.'', content = [lit ''Up 4%''],
                                     speakerNotes = None\<rparr>],
                         sentiment = lit ''positive'', themeColor = lit ''#0A0''\<rparr>)) \<noteq> 5
   \<and> fst (generateSlideContent (\<lambda>n :: int. lit ''5'')
          (\<lambda>req :: unit request.
             Inr \<lparr>candidates = None, response_text = Some (lit ''{"slides":[1]}'')\<rparr>
               :: unit + response)
          (\<lambda>t. Inr \<lparr>slides = [\<lparr>title = lit ''Tea sells.'', content = [lit ''Up 4%''],
                                 speakerNotes = None\<rparr>],
                     sentiment = lit ''positive'', themeColor = lit ''#0A0''\<rparr>
                 :: unit + PresentationStructure)
          (lit ''tea'') 5 (\<lparr>host = (), events = []\<rparr> :: (unit, unit, unit) world))
     = Inr (Some \<lparr>slides = [\<lparr>title = lit ''Tea sells.'', content = [lit ''Up 4%''],
                               speakerNotes = None\<rparr>],
                   sentiment = lit ''positive'', themeColor = lit ''#0A0''\<rparr>)\<close>
proof -
  let ?v = "\<lparr>slides = [\<lparr>title = lit ''Tea sells.'', content = [lit ''Up 4%''],
                         speakerNotes = None\<rparr>],
             sentiment = lit ''positive'', themeColor = lit ''#0A0''\<rparr>"
  let ?r = \<open>\<lparr>candidates = None, response_text = Some (lit ''{"slides":[1]}'')\<rparr>\<close>
  have body: \<open>response_text ?r = Some (lit ''{"slides":[1]}'')\<close>
    by simp
  have nonempty: \<open>lit ''{"slides":[1]}'' \<noteq> []\<close>
    by (simp add: lit_def)
  have "fst (generateSlideContent (\<lambda>n :: int. lit ''5'')
                  (\<lambda>req :: unit request. Inr ?r :: unit + response)
               (\<lambda>t. Inr ?v :: unit + PresentationStructure) (lit ''tea'') 5
               (\<lparr>host = (), events = []\<rparr> :: (unit, unit, unit) world)) = Inr (Some ?v)"
    using generateSlideContent_passes_through
            [where svc = "\<lambda>req :: unit request. Inr ?r :: unit + response"
             and parse = "\<lambda>t. Inr ?v :: unit + PresentationStructure"
             and topic = "lit ''tea''" and count = 5 and numberToString = "\<lambda>n :: int. lit ''5''"
             and w = "\<lparr>host = (), events = []\<rparr> :: (unit, unit, unit) world",
             OF refl body nonempty refl] .
  then show ?thesis by simp
qed

subsection \<open>generateSlideContent: absent and empty text\<close>

text \<open>
  Claim C10. \<open>generateSlideContent\<close> returns \<^verbatim>\<open>null\<close> whenever the text of the
  response is absent or is the empty string, and in that case does nothing beyond the
  request itself. \<^verbatim>\<open>JSON.parse\<close> is called on a non-empty text of the response only, so
  an empty body is the empty-response outcome, not a malformed one.
\<close>

theorem generateSlideContent_empty_text:
  "(\<forall>r. svc (slideRequest numberToString topic count) = Inr r
         \<and> (response_text r = None \<or> response_text r = Some []) \<longrightarrow>
      generateSlideContent numberToString svc parse topic count w =
        (Inr None, w\<lparr>events := events w @ [GenerateContent (slideRequest numberToString topic count)]\<rparr>))
   \<and> (\<forall>t. JSONParse t \<in> set (drop (length (events w))
                                (events (snd (generateSlideContent numberToString svc parse topic count w))))
         \<longrightarrow> t \<noteq> [] \<and> (\<exists>r. svc (slideRequest numberToString topic count) = Inr r \<and> response_text r = Some t))"
proof -
  have quiet: "\<forall>r. svc (slideRequest numberToString topic count) = Inr r
         \<and> (response_text r = None \<or> response_text r = Some []) \<longrightarrow>
      generateSlideContent numberToString svc parse topic count w =
        (Inr None, w\<lparr>events := events w @ [GenerateContent (slideRequest numberToString topic count)]\<rparr>)"
    by (auto simp: generateSlideContent_result emit_def)
  have parsed: "\<forall>t. JSONParse t \<in> set (drop (length (events w))
                                (events (snd (generateSlideContent numberToString svc parse topic count w))))
         \<longrightarrow> t \<noteq> [] \<and> (\<exists>r. svc (slideRequest numberToString topic count) = Inr r \<and> response_text r = Some t)"
  proof (intro allI impI)
    fix t
    assume ev: "JSONParse t \<in> set (drop (length (events w))
                                (events (snd (generateSlideContent numberToString svc parse topic count w))))"
    show "t \<noteq> [] \<and> (\<exists>r. svc (slideRequest numberToString topic count) = Inr r \<and> response_text r = Some t)"
    proof (cases "svc (slideRequest numberToString topic count)")
      case (Inl x)
      with ev show ?thesis
        by (simp add: generateSlideContent_result emit_def)
    next
      case (Inr r)
      with ev show ?thesis
        by (cases "response_text r")
           (auto simp: generateSlideContent_result emit_def split: if_splits sum.splits)
    qed
  qed
  from quiet parsed show ?thesis by blast
qed

theorem generateSlideContent_empty_text_witness:
  "generateSlideContent (\<lambda>n :: int. lit ''3'')
     (\<lambda>req :: unit request.
        Inr \<lparr>candidates = None, response_text = Some []\<rparr> :: unit + response)
     (\<lambda>t. Inl () :: unit + nat)
     (lit ''tea'') 3 (\<lparr>host = (), events = []\<rparr> :: (unit, unit, unit) world)
   = (Inr None,
      \<lparr>host = (),
       events = [GenerateContent (slideRequest (\<lambda>n :: int. lit ''3'') (lit ''tea'') 3)]\<rparr>)
   \<and> generateSlideContent (\<lambda>n :: int. lit ''3'')
     (\<lambda>req :: unit request.
        Inr \<lparr>candidates = None, response_text = None\<rparr> :: unit + response)
     (\<lambda>t. Inl () :: unit + nat)
     (lit ''tea'') 3 (\<lparr>host = (), events = []\<rparr> :: (unit, unit, unit) world)
   = (Inr None,
      \<lparr>host = (),
       events = [GenerateContent (slideRequest (\<lambda>n :: int. lit ''3'') (lit ''tea'') 3)]\<rparr>)
   \<and> JSONParse (lit ''{}'')
       \<in> set (events (snd (generateSlideContent (\<lambda>n :: int. lit ''3'')
                 (\<lambda>req :: unit request.
                    Inr \<lparr>candidates = None, response_text = Some (lit ''{}'')\<rparr> :: unit + response)
                 (\<lambda>t. Inr 0 :: unit + nat)
                 (lit ''tea'') 3 (\<lparr>host = (), events = []\<rparr> :: (unit, unit, unit) world))))
   \<and> lit ''{}'' \<noteq> []"
proof -
  let ?e = "\<lparr>candidates = None, response_text = Some []\<rparr>"
  let ?n = "\<lparr>candidates = None, response_text = None\<rparr>"
  let ?g = "\<lparr>candidates = None, response_text = Some (lit ''{}'')\<rparr>"
  let ?w = "\<lparr>host = (), events = []\<rparr> :: (unit, unit, unit) world"
  have he: "(\<lambda>req :: unit request. Inr ?e :: unit + response)
              (slideRequest (\<lambda>n :: int. lit ''3'') (lit ''tea'') 3) = Inr ?e
           \<and> (response_text ?e = None \<or> response_text ?e = Some [])"
    by simp
  have hn: "(\<lambda>req :: unit request. Inr ?n :: unit + response)
              (slideRequest (\<lambda>n :: int. lit ''3'') (lit ''tea'') 3) = Inr ?n
           \<and> (response_text ?n = None \<or> response_text ?n = Some [])"
    by simp
  have a: "generateSlideContent (\<lambda>n :: int. lit ''3'')
                  (\<lambda>req :: unit request. Inr ?e :: unit + response)
             (\<lambda>t. Inl () :: unit + nat) (lit ''tea'') 3 ?w
           = (Inr None,
      \<lparr>host = (),
       events = [GenerateContent (slideRequest (\<lambda>n :: int. lit ''3'') (lit ''tea'') 3)]\<rparr>)"
    using generateSlideContent_empty_text
            [where svc = "\<lambda>req :: unit request. Inr ?e :: unit + response"
             and parse = "\<lambda>t. Inl () :: unit + nat"
             and topic = "lit ''tea''" and count = 3 and numberToString = "\<lambda>n :: int. lit ''3''" and w = ?w,
             THEN conjunct1, rule_format, OF he]
    by simp
  have b: "generateSlideContent (\<lambda>n :: int. lit ''3'')
                  (\<lambda>req :: unit request. Inr ?n :: unit + response)
             (\<lambda>t. Inl () :: unit + nat) (lit ''tea'') 3 ?w
           = (Inr None,
      \<lparr>host = (),
       events = [GenerateContent (slideRequest (\<lambda>n :: int. lit ''3'') (lit ''tea'') 3)]\<rparr>)"
    using generateSlideContent_empty_text
            [where svc = "\<lambda>req :: unit request. Inr ?n :: unit + response"
             and parse = "\<lambda>t. Inl () :: unit + nat"
             and topic = "lit ''tea''" and count = 3 and numberToString = "\<lambda>n :: int. lit ''3''" and w = ?w,
             THEN conjunct1, rule_format, OF hn]
    by simp
  have nonempty: "lit ''{}'' \<noteq> []"
    by (simp add: lit_def)
  have c: "JSONParse (lit ''{}'')
       \<in> set (events (snd (generateSlideContent (\<lambda>n :: int. lit ''3'')
                 (\<lambda>req :: unit request. Inr ?g :: unit + response)
                 (\<lambda>t. Inr 0 :: unit + nat) (lit ''tea'') 3 ?w)))"
    using nonempty by (simp add: generateSlideContent_def Let_def emit_def)
  then have "JSONParse (lit ''{}'')
       \<in> set (drop (length (events ?w)) (events (snd (generateSlideContent (\<lambda>n :: int. lit ''3'')
                 (\<lambda>req :: unit request. Inr ?g :: unit + response)
                 (\<lambda>t. Inr 0 :: unit + nat) (lit ''tea'') 3 ?w))))"
    by simp
  from generateSlideContent_empty_text
            [where svc = "\<lambda>req :: unit request. Inr ?g :: unit + response"
             and parse = "\<lambda>t. Inr 0 :: unit + nat"
             and topic = "lit ''tea''" and count = 3 and numberToString = "\<lambda>n :: int. lit ''3''" and w = ?w,
             THEN conjunct2, rule_format, OF this]
  have d: "lit ''{}'' \<noteq> []"
    by blast
  from a b c d show ?thesis by blast
qed

end
